theory Spec2Isabelle
  imports Main "HOL-Library.AList" "HOL-Library.Sublist" "HOL-Library.Word"
begin

section \<open>The resourced agent: single runs, persistence and the scheduling loop\<close>

text \<open>
  This theory embeds the agent package (\<^verbatim>\<open>src/unnamed/part_002\<close>): the path
  prefixing helpers, \<^verbatim>\<open>Run\<close> with its three dispatch arms, \<^verbatim>\<open>saveRun\<close>,
  \<^verbatim>\<open>GetRunByPath\<close> and the two scheduling loops.

  Conventions of the embedding.
  \<^item> A Go result \<^verbatim>\<open>(value, error)\<close> is a pair whose second component is an
    \<open>error option\<close> (\<open>None\<close> is \<^verbatim>\<open>nil\<close>), so that a value returned next to an
    error is kept, as \<^verbatim>\<open>Run\<close> does. Library calls that yield either a value or an
    error are sums, \<open>Inl\<close> the error.
  \<^item> A byte slice is a \<open>string\<close>; the \<^verbatim>\<open>nil\<close> slice and the empty slice are both
    \<open>[]\<close> (the code only passes them to \<^verbatim>\<open>json.Unmarshal\<close> and to the caller).
  \<^item> A Go map built by assignments is an association list updated with
    \<open>AList.update\<close>, read with \<open>map_of\<close>; the bolt bucket is a map
    \<open>string \<rightharpoonup> bytes\<close>.
  \<^item> Everything the package calls but does not define (the clock, the host package, the
    process library, \<^verbatim>\<open>encoding/json\<close>, the bolt store's failures and the task
    constructors) is a field of the record \<open>env\<close>; every theorem holds for every
    \<open>env\<close>.
\<close>

subsection \<open>Data\<close>

type_synonym bytes = string

datatype error = Error (message: string)

text \<open>\<^verbatim>\<open>resourced_config.Config\<close>, with the fields the agent reads.\<close>

record Config =
  Kind :: string
  Path :: string
  Interval :: string
  Command :: string
  GoStruct :: string
  ReaderPaths :: "string list"

text \<open>
  The agent: the bolt bucket \<^verbatim>\<open>resources\<close> of its \<^verbatim>\<open>Db\<close>, and its \<^verbatim>\<open>Tags\<close>
  (\<open>AgentTags\<close>, since \<open>Tags\<close> is the host's field below).
\<close>

record Agent =
  Db :: "string \<rightharpoonup> bytes"
  AgentTags :: "string list"

text \<open>
  \<^verbatim>\<open>resourced_host.Host\<close>: the agent assigns its \<^verbatim>\<open>Tags\<close> field; the other fields
  are set by the host package and carried in \<open>Name\<close>.
\<close>

record Host =
  Name :: string
  Tags :: "string list"

text \<open>
  Go values that are marshalled or were unmarshalled: the \<^verbatim>\<open>interface{}\<close> values of
  \<^verbatim>\<open>encoding/json\<close> (nil, bool, float64 as its 64 bits, string, slice, map), the
  \<^verbatim>\<open>int64\<close> timestamp and the host pointer. A \<^verbatim>\<open>map[string]string\<close> is a
  \<open>Map\<close> of \<open>String\<close> values: both marshal to the same JSON object.
\<close>

datatype gvalue =
    Nil
  | Bool bool
  | Float64 "64 word"
  | Int64 "64 word"
  | String string
  | Slice "gvalue list"
  | Map "(string \<times> gvalue) list"
  | HostPtr "Host option"

text \<open>
  A task instance (\<^verbatim>\<open>IReader\<close>): its private state and its two methods.
  \<^verbatim>\<open>IWriter\<close> extends it, as in Go every writer is a reader.
\<close>

record 's IReader =
  self :: 's
  method_Run :: "'s \<Rightarrow> 's \<times> error option"
  method_ToJson :: "'s \<Rightarrow> bytes \<times> error option"

record 's IWriter = "'s IReader" +
  method_GetJsonProcessor :: "'s \<Rightarrow> string"
  method_GetReadersData :: "'s \<Rightarrow> (string \<times> gvalue) list"
  method_SetReadersData :: "(string \<times> gvalue) list \<Rightarrow> 's \<Rightarrow> 's"
  method_SetReadersDataInBytes :: "(string \<times> bytes) list \<Rightarrow> 's \<Rightarrow> 's"

text \<open>
  The collaborators of one run. \<open>cmd_Output c stdin\<close> is
  \<^verbatim>\<open>libprocess.NewCmd(c)\<close> with its \<^verbatim>\<open>Stdin\<close> set or not, then
  \<^verbatim>\<open>Output()\<close>; \<open>json_Unmarshal_interface\<close> decodes into an \<^verbatim>\<open>interface{}\<close>,
  \<open>json_Unmarshal_map\<close> into a \<^verbatim>\<open>map[string]interface{}\<close>;
  \<open>bolt_Put_error k v\<close> is the error of the bolt update transaction that puts
  \<open>v\<close> under \<open>k\<close>; the two constructor tables are the registries of the readers
  and writers packages.
\<close>

record 's env =
  time_Now_UnixNano :: "64 word"
  NewHostByHostname :: "error + Host"
  cmd_Output :: "string \<Rightarrow> bytes option \<Rightarrow> bytes \<times> error option"
  json_Unmarshal_interface :: "bytes \<Rightarrow> error + gvalue"
  json_Unmarshal_map :: "bytes \<Rightarrow> error + (string \<times> gvalue) list"
  json_Marshal :: "gvalue \<Rightarrow> error + bytes"
  bolt_Put_error :: "string \<Rightarrow> bytes \<Rightarrow> error option"
  readerConstructors :: "string \<rightharpoonup> (Config \<Rightarrow> error + 's IReader)"
  writerConstructors :: "string \<rightharpoonup> (Config \<Rightarrow> error + 's IWriter)"

subsection \<open>Path prefixes\<close>

text \<open>
  The \<^verbatim>\<open>interface{}\<close> argument of the prefixing helpers: the type switch has a
  \<^verbatim>\<open>Config\<close> case, a \<^verbatim>\<open>string\<close> case and falls through to \<^verbatim>\<open>""\<close>.
\<close>

datatype input = ConfigInput Config | StringInput string | OtherInput

definition pathWithReaderOrWriterPrefix :: "string \<Rightarrow> input \<Rightarrow> string" where
  "pathWithReaderOrWriterPrefix rOrW inp =
     (let pre = ''/'' @ rOrW in
      case inp of
        ConfigInput v \<Rightarrow> pre @ Path v
      | StringInput v \<Rightarrow> (if prefix (pre @ ''/'') v then v else pre @ v)
      | OtherInput \<Rightarrow> '''')"

definition pathWithReaderPrefix :: "input \<Rightarrow> string" where
  "pathWithReaderPrefix inp = pathWithReaderOrWriterPrefix ''r'' inp"

definition pathWithWriterPrefix :: "input \<Rightarrow> string" where
  "pathWithWriterPrefix inp = pathWithReaderOrWriterPrefix ''w'' inp"

definition pathWithPrefix :: "Config \<Rightarrow> string" where
  "pathWithPrefix config =
     (if Kind config = ''reader'' then pathWithReaderPrefix (ConfigInput config)
      else if Kind config = ''writer'' then pathWithWriterPrefix (ConfigInput config)
      else Path config)"

subsection \<open>The store\<close>

text \<open>
  \<^verbatim>\<open>GetRunByPath\<close>: the bucket's \<^verbatim>\<open>Get\<close> gives \<^verbatim>\<open>nil\<close> for a key that is not
  set, and the error returned is always \<^verbatim>\<open>nil\<close>.
\<close>

definition GetRunByPath :: "Agent \<Rightarrow> string \<Rightarrow> bytes \<times> error option" where
  "GetRunByPath a path = ((case Db a path of None \<Rightarrow> [] | Some data \<Rightarrow> data), None)"

definition GetRun :: "Agent \<Rightarrow> Config \<Rightarrow> bytes \<times> error option" where
  "GetRun a config = GetRunByPath a (pathWithPrefix config)"

text \<open>
  The update transaction of \<^verbatim>\<open>saveRun\<close>: \<^verbatim>\<open>Put\<close> overwrites; a transaction that
  returns an error is rolled back.
\<close>

definition Db_Update_Put :: "'s env \<Rightarrow> Agent \<Rightarrow> string \<Rightarrow> bytes \<Rightarrow> error option \<times> Agent" where
  "Db_Update_Put env a key val =
     (case bolt_Put_error env key val of
        Some err \<Rightarrow> (Some err, a)
      | None \<Rightarrow> (None, a\<lparr>Db := (Db a)(key \<mapsto> val)\<rparr>))"

subsection \<open>Running a task\<close>

definition result_of :: "error + bytes \<Rightarrow> bytes \<times> error option" where
  "result_of r = (case r of Inl err \<Rightarrow> ([], Some err) | Inr b \<Rightarrow> (b, None))"

text \<open>
  The loop of \<^verbatim>\<open>runCommand\<close> over \<^verbatim>\<open>config.ReaderPaths\<close> (lines 171-181): a
  reader's stored bytes enter \<^verbatim>\<open>readersData\<close> when \<^verbatim>\<open>GetRunByPath\<close> gives no
  error and they unmarshal.
\<close>

definition runCommand_readersData_step :: "'s env \<Rightarrow> Agent \<Rightarrow> string \<Rightarrow> (string \<times> gvalue) list \<Rightarrow> (string \<times> gvalue) list" where
  "runCommand_readersData_step env a readerPath readersData =
     (case GetRunByPath a (pathWithReaderPrefix (StringInput readerPath)) of
        (readerJsonBytes, None) \<Rightarrow>
          (case json_Unmarshal_interface env readerJsonBytes of
             Inr data \<Rightarrow> AList.update readerPath data readersData
           | Inl err \<Rightarrow> readersData)
      | (readerJsonBytes, Some err) \<Rightarrow> readersData)"

definition runCommand_readersData :: "'s env \<Rightarrow> Agent \<Rightarrow> Config \<Rightarrow> (string \<times> gvalue) list" where
  "runCommand_readersData env a config =
     fold (runCommand_readersData_step env a) (ReaderPaths config) []"

text \<open>
  \<^verbatim>\<open>runCommand\<close>, split at what the command is given on its standard input:
  nothing for a reader, the marshalled \<^verbatim>\<open>readersData\<close> for a writer (a marshalling
  error returns before the command is run).
\<close>

definition runCommand :: "'s env \<Rightarrow> Agent \<Rightarrow> Config \<Rightarrow> bytes \<times> error option" where
  "runCommand env a config =
     (if Kind config = ''writer'' then
        (case json_Marshal env (Map (runCommand_readersData env a config)) of
           Inl err \<Rightarrow> ([], Some err)
         | Inr readersDataJsonBytes \<Rightarrow>
             cmd_Output env (Command config) (Some readersDataJsonBytes))
      else cmd_Output env (Command config) None)"

definition processJson :: "'s env \<Rightarrow> Config \<Rightarrow> 's IWriter \<Rightarrow> error option \<times> 's IWriter" where
  "processJson env config writer =
     (let processorPath = method_GetJsonProcessor writer (self writer) in
      if processorPath = '''' then (None, writer)
      else
        (let readersData = method_GetReadersData writer (self writer) in
         case json_Marshal env (Map readersData) of
           Inl err \<Rightarrow> (Some err, writer)
         | Inr readersDataJsonBytes \<Rightarrow>
             (case cmd_Output env processorPath (Some readersDataJsonBytes) of
                (newJsonDataBytes, Some err) \<Rightarrow> (Some err, writer)
              | (newJsonDataBytes, None) \<Rightarrow>
                  (case json_Unmarshal_map env newJsonDataBytes of
                     Inl err \<Rightarrow> (Some err, writer)
                   | Inr newJsonData \<Rightarrow>
                       (None, writer\<lparr>self := method_SetReadersData writer newJsonData (self writer)\<rparr>)))))"

text \<open>
  Modelled from the spec: \<^verbatim>\<open>readers.NewGoStructByConfig\<close> is not among the
  sources. The spec (4.1, 7) has \<^verbatim>\<open>Lookup(typeIdentifier) -> constructor, found\<close>
  and makes an unregistered identifier or a malformed config an error at construction
  time; an instance is built from the config alone.
\<close>

definition readers_NewGoStructByConfig :: "'s env \<Rightarrow> Config \<Rightarrow> error + 's IReader" where
  "readers_NewGoStructByConfig env config =
     (case readerConstructors env (GoStruct config) of
        None \<Rightarrow> Inl (Error ''GoStruct is undefined.'')
      | Some constructor \<Rightarrow> constructor config)"

text \<open>
  Modelled from the spec: \<^verbatim>\<open>writers.NewGoStructByConfig\<close> is not among the
  sources; the writers' registry is looked up as the readers' is.
\<close>

definition writers_NewGoStructByConfig :: "'s env \<Rightarrow> Config \<Rightarrow> error + 's IWriter" where
  "writers_NewGoStructByConfig env config =
     (case writerConstructors env (GoStruct config) of
        None \<Rightarrow> Inl (Error ''GoStruct is undefined.'')
      | Some constructor \<Rightarrow> constructor config)"

definition initGoStructReader :: "'s env \<Rightarrow> Config \<Rightarrow> error + 's IReader" where
  "initGoStructReader env config = readers_NewGoStructByConfig env config"

text \<open>
  Modelled from the spec: the writers' \<^verbatim>\<open>SetReadersDataInBytes\<close> and
  \<^verbatim>\<open>GetReadersData\<close> are not among the sources. The spec (4.2, 4.3 step 4) has
  the raw setter take a mapping from reader path to bytes and the getter return a
  mapping from reader path to parsed value, from which a reader path without a stored
  record is absent, without an error: every entry is decoded, and an entry whose bytes do
  not decode is left out. \<open>unmarshal\<close> is the decoder into an \<^verbatim>\<open>interface{}\<close>.
\<close>

definition writers_SetReadersDataInBytes :: "(bytes \<Rightarrow> error + gvalue) \<Rightarrow> (string \<times> bytes) list \<Rightarrow> (string \<times> gvalue) list" where
  "writers_SetReadersDataInBytes unmarshal readersJsonBytes =
     fold (\<lambda>entry readersData.
             case unmarshal (snd entry) of
               Inr data \<Rightarrow> AList.update (fst entry) data readersData
             | Inl err \<Rightarrow> readersData)
          readersJsonBytes []"

text \<open>
  The loop of \<^verbatim>\<open>initGoStructWriter\<close> over \<^verbatim>\<open>config.ReaderPaths\<close> (lines
  243-248): the bytes \<^verbatim>\<open>GetRunByPath\<close> returns are stored under the reader path
  when its error is \<^verbatim>\<open>nil\<close>.
\<close>

definition initGoStructWriter_readersData_step :: "Agent \<Rightarrow> string \<Rightarrow> (string \<times> bytes) list \<Rightarrow> (string \<times> bytes) list" where
  "initGoStructWriter_readersData_step a readerPath readersData =
     (case GetRunByPath a (pathWithReaderPrefix (StringInput readerPath)) of
        (readerJsonBytes, None) \<Rightarrow> AList.update readerPath readerJsonBytes readersData
      | (readerJsonBytes, Some err) \<Rightarrow> readersData)"

definition initGoStructWriter_readersData :: "Agent \<Rightarrow> Config \<Rightarrow> (string \<times> bytes) list" where
  "initGoStructWriter_readersData a config =
     fold (initGoStructWriter_readersData_step a) (ReaderPaths config) []"

definition initGoStructWriter :: "'s env \<Rightarrow> Agent \<Rightarrow> Config \<Rightarrow> error + 's IWriter" where
  "initGoStructWriter env a config =
     (case writers_NewGoStructByConfig env config of
        Inl err \<Rightarrow> Inl err
      | Inr writer \<Rightarrow>
          Inr (writer\<lparr>self := method_SetReadersDataInBytes writer
                 (initGoStructWriter_readersData a config) (self writer)\<rparr>))"

text \<open>
  \<^verbatim>\<open>runGoStruct\<close>: a failing \<^verbatim>\<open>Run\<close> is turned into the marshalled map
  \<^verbatim>\<open>{"Error": err.Error()}\<close>; otherwise \<^verbatim>\<open>ToJson\<close> is called on the instance
  as \<^verbatim>\<open>Run\<close> left it.
\<close>

definition runGoStruct :: "'s env \<Rightarrow> ('s, 'm) IReader_scheme \<Rightarrow> bytes \<times> error option" where
  "runGoStruct env readerOrWriter =
     (case method_Run readerOrWriter (self readerOrWriter) of
        (s', Some err) \<Rightarrow>
          result_of (json_Marshal env (Map (AList.update ''Error'' (String (message err)) [])))
      | (s', None) \<Rightarrow> method_ToJson readerOrWriter s')"

definition runGoStructReader :: "'s env \<Rightarrow> Agent \<Rightarrow> Config \<Rightarrow> bytes \<times> error option" where
  "runGoStructReader env a config =
     (case initGoStructReader env config of
        Inl err \<Rightarrow> ([], Some err)
      | Inr reader \<Rightarrow> runGoStruct env reader)"

definition runGoStructWriter :: "'s env \<Rightarrow> Agent \<Rightarrow> Config \<Rightarrow> bytes \<times> error option" where
  "runGoStructWriter env a config =
     (case initGoStructWriter env a config of
        Inl err \<Rightarrow> ([], Some err)
      | Inr writer \<Rightarrow>
          (case processJson env config writer of
             (Some err, writer') \<Rightarrow> ([], Some err)
           | (None, writer') \<Rightarrow> runGoStruct env writer'))"

subsection \<open>Persisting a run\<close>

definition commonData :: "'s env \<Rightarrow> Config \<Rightarrow> (string \<times> gvalue) list" where
  "commonData env config =
     (let record = [];
          record = AList.update ''UnixNano'' (Int64 (time_Now_UnixNano env)) record;
          record = AList.update ''Path'' (String (Path config)) record;
          config = (if Interval config = '''' then config\<lparr>Interval := ''1m''\<rparr> else config);
          record = AList.update ''Interval'' (String (Interval config)) record;
          record = (if Command config = '''' then record
                    else AList.update ''Command'' (String (Command config)) record);
          record = (if GoStruct config = '''' then record
                    else AList.update ''GoStruct'' (String (GoStruct config)) record)
      in record)"

definition hostData :: "'s env \<Rightarrow> Agent \<Rightarrow> Host option \<times> error option" where
  "hostData env a =
     (case NewHostByHostname env of
        Inl err \<Rightarrow> (None, Some err)
      | Inr host \<Rightarrow> (Some (host\<lparr>Tags := AgentTags a\<rparr>), None))"

definition saveRun :: "'s env \<Rightarrow> Agent \<Rightarrow> Config \<Rightarrow> bytes \<Rightarrow> error option \<times> Agent" where
  "saveRun env a config output =
     (if Path config = '''' then (None, a)
      else
        (let record = commonData env config in
         case hostData env a of
           (host, Some err) \<Rightarrow> (Some err, a)
         | (host, None) \<Rightarrow>
             (let record = AList.update ''Host'' (HostPtr host) record in
              case json_Unmarshal_map env output of
                Inl err \<Rightarrow> (Some err, a)
              | Inr runData \<Rightarrow>
                  (let record = AList.update ''Data'' (Map runData) record in
                   case json_Marshal env (Map record) of
                     Inl err \<Rightarrow> (Some err, a)
                   | Inr recordInJson \<Rightarrow>
                       Db_Update_Put env a (pathWithPrefix config) recordInJson))))"

text \<open>
  The record \<^verbatim>\<open>saveRun\<close> marshals once the host and the run's data are at hand
  (lines 354-367), as one expression.
\<close>

definition saveRun_record :: "'s env \<Rightarrow> Agent \<Rightarrow> Config \<Rightarrow> Host \<Rightarrow> (string \<times> gvalue) list \<Rightarrow> (string \<times> gvalue) list" where
  "saveRun_record env a config host runData =
     AList.update ''Data'' (Map runData)
       (AList.update ''Host'' (HostPtr (Some (host\<lparr>Tags := AgentTags a\<rparr>)))
          (commonData env config))"

text \<open>
  The dispatch of \<^verbatim>\<open>Run\<close> (lines 147-153). The named results start as
  \<^verbatim>\<open>nil, nil\<close>, which is what a config matched by no arm keeps.
\<close>

definition Run_dispatch :: "'s env \<Rightarrow> Agent \<Rightarrow> Config \<Rightarrow> bytes \<times> error option" where
  "Run_dispatch env a config =
     (if Command config \<noteq> [] then runCommand env a config
      else if GoStruct config \<noteq> [] \<and> Kind config = ''reader''
        then runGoStructReader env a config
      else if GoStruct config \<noteq> [] \<and> Kind config = ''writer''
        then runGoStructWriter env a config
      else ([], None))"

text \<open>
  \<^verbatim>\<open>Run\<close> returns the output, the error and the agent with its store as the run
  left it (lines 154-160).
\<close>

definition Run :: "'s env \<Rightarrow> Agent \<Rightarrow> Config \<Rightarrow> bytes \<times> error option \<times> Agent" where
  "Run env a config =
     (case Run_dispatch env a config of
        (output, Some err) \<Rightarrow> (output, Some err, a)
      | (output, None) \<Rightarrow>
          (case saveRun env a config output of (err, a') \<Rightarrow> (output, err, a')))"

subsection \<open>The scheduling loops\<close>

text \<open>
  \<^verbatim>\<open>RunForever\<close>. The \<^verbatim>\<open>select\<close> with a \<^verbatim>\<open>default\<close> arm polls the quit channel
  once per iteration; \<open>quit i\<close> says whether a sender is waiting on the channel at
  poll \<open>i\<close>, and \<open>envs i\<close> is the world of the \<open>i\<close>-th run. A loop that never
  receives never returns: its value is \<open>None\<close>.
\<close>

partial_function (option) RunForever :: "(nat \<Rightarrow> 's env) \<Rightarrow> Config \<Rightarrow> (nat \<Rightarrow> bool) \<Rightarrow> nat \<Rightarrow> Agent \<Rightarrow> Agent option" where
  "RunForever envs config quit i a =
     (if quit i then Some a
      else RunForever envs config quit (Suc i) (snd (snd (Run (envs i) a config))))"

text \<open>
  The two \<^verbatim>\<open>range\<close> loops of \<^verbatim>\<open>RunAllForever\<close> (lines 430-437). Each entry's
  channel is made by \<^verbatim>\<open>make(chan bool)\<close> and kept in a map local to
  \<^verbatim>\<open>RunAllForever\<close>, and \<^verbatim>\<open>RunForever\<close> is called, not started with \<^verbatim>\<open>go\<close>:
  while the call runs, the only holder of the channel besides the loop is the caller,
  which waits for the call to return, so no sender is ever waiting on it.
\<close>

fun RunAllForever_loops :: "(nat \<Rightarrow> 's env) \<Rightarrow> Config list \<Rightarrow> Agent \<Rightarrow> Agent option" where
  "RunAllForever_loops envs [] a = Some a"
| "RunAllForever_loops envs (config # rest) a =
     (case RunForever envs config (\<lambda>i. False) 0 a of
        None \<Rightarrow> None
      | Some a' \<Rightarrow> RunAllForever_loops envs rest a')"

record ConfigStorage =
  Readers :: "Config list"
  Writers :: "Config list"

text \<open>
  What \<^verbatim>\<open>RunAllForever\<close> does with a configuration set it receives while it
  tracks no loop (\<^verbatim>\<open>quitChans\<close> is empty, as it is for the first set): the loop
  over the readers, then the loop over the writers. \<open>None\<close> says that control
  never comes back to the \<^verbatim>\<open>select\<close> that receives the next set.
\<close>

definition RunAllForever_start :: "(nat \<Rightarrow> 's env) \<Rightarrow> ConfigStorage \<Rightarrow> Agent \<Rightarrow> Agent option" where
  "RunAllForever_start envs configStorage a =
     (case RunAllForever_loops envs (Readers configStorage) a of
        None \<Rightarrow> None
      | Some a' \<Rightarrow> RunAllForever_loops envs (Writers configStorage) a')"

subsection \<open>A sample world\<close>

text \<open>
  One concrete world, on which the theorems below are exercised. Its collaborators are
  finite tables: two shell commands that succeed (\<^verbatim>\<open>echo {}\<close> prints an empty JSON
  object, \<^verbatim>\<open>echo hi\<close> prints text that is not JSON) while every other command exits
  with status 1; a JSON decoder that knows the empty object and the error payload and,
  as \<^verbatim>\<open>encoding/json\<close> does, rejects the empty input; an encoder that writes the
  empty map and the error payload as JSON and one fixed text for every other value; a
  store whose transactions succeed; a reader whose \<^verbatim>\<open>Run\<close> fails, a reader that
  succeeds, and two writers that differ in their post-processing command. The state of
  a sample task is its readers' data, which a sample writer sets from raw bytes by
  decoding them.
\<close>

definition quoted :: "string \<Rightarrow> string" where
  "quoted s = CHR 0x22 # s @ [CHR 0x22]"

definition sample_error_payload :: bytes where
  "sample_error_payload = ''{'' @ quoted ''Error'' @ '':'' @ quoted ''boom'' @ ''}''"

definition sample_record_text :: bytes where
  "sample_record_text = ''{'' @ quoted ''Data'' @ '':{}}''"

definition sample_host :: Host where
  "sample_host = \<lparr>Name = ''localhost'', Tags = []\<rparr>"

definition sample_cmd_Output :: "string \<Rightarrow> bytes option \<Rightarrow> bytes \<times> error option" where
  "sample_cmd_Output c stdin =
     (if c = ''echo {}'' then (''{}'', None)
      else if c = ''echo hi'' then (''hi'', None)
      else ([], Some (Error ''exit status 1'')))"

definition sample_Unmarshal_map :: "bytes \<Rightarrow> error + (string \<times> gvalue) list" where
  "sample_Unmarshal_map b =
     (if b = [] then Inl (Error ''unexpected end of JSON input'')
      else if b = ''{}'' then Inr []
      else if b = sample_error_payload then Inr [(''Error'', String ''boom'')]
      else Inl (Error ''invalid character''))"

definition sample_Unmarshal_interface :: "bytes \<Rightarrow> error + gvalue" where
  "sample_Unmarshal_interface b =
     (case sample_Unmarshal_map b of Inl err \<Rightarrow> Inl err | Inr m \<Rightarrow> Inr (Map m))"

definition sample_Marshal :: "gvalue \<Rightarrow> error + bytes" where
  "sample_Marshal v =
     (if v = Map [] then Inr ''{}''
      else if v = Map [(''Error'', String ''boom'')] then Inr sample_error_payload
      else Inr sample_record_text)"

definition sample_reader :: "bool \<Rightarrow> (string \<times> gvalue) list IReader" where
  "sample_reader fails =
     \<lparr>self = [],
      method_Run = (\<lambda>s. (s, if fails then Some (Error ''boom'') else None)),
      method_ToJson = (\<lambda>s. (''{}'', None))\<rparr>"

definition sample_writer :: "string \<Rightarrow> (string \<times> gvalue) list IWriter" where
  "sample_writer processor =
     \<lparr>self = [],
      method_Run = (\<lambda>s. (s, None)),
      method_ToJson = (\<lambda>s. (''{}'', None)),
      method_GetJsonProcessor = (\<lambda>s. processor),
      method_GetReadersData = (\<lambda>s. s),
      method_SetReadersData = (\<lambda>d s. d),
      method_SetReadersDataInBytes =
        (\<lambda>raw s. writers_SetReadersDataInBytes sample_Unmarshal_interface raw)\<rparr>"

definition sample_env :: "(string \<times> gvalue) list env" where
  "sample_env =
     \<lparr>time_Now_UnixNano = 1,
      NewHostByHostname = Inr sample_host,
      cmd_Output = sample_cmd_Output,
      json_Unmarshal_interface = sample_Unmarshal_interface,
      json_Unmarshal_map = sample_Unmarshal_map,
      json_Marshal = sample_Marshal,
      bolt_Put_error = (\<lambda>k v. None),
      readerConstructors =
        [''Failing'' \<mapsto> (\<lambda>config. Inr (sample_reader True)),
         ''Uptime'' \<mapsto> (\<lambda>config. Inr (sample_reader False))],
      writerConstructors =
        [''Strict'' \<mapsto> (\<lambda>config. Inr (sample_writer ''false'')),
         ''Chatty'' \<mapsto> (\<lambda>config. Inr (sample_writer ''echo hi''))]\<rparr>"

definition sample_agent :: Agent where
  "sample_agent = \<lparr>Db = Map.empty, AgentTags = [''prod'']\<rparr>"

definition sample_config :: "string \<Rightarrow> string \<Rightarrow> string \<Rightarrow> string \<Rightarrow> Config" where
  "sample_config kind path command goStruct =
     \<lparr>Kind = kind, Path = path, Interval = [], Command = command, GoStruct = goStruct,
      ReaderPaths = []\<rparr>"

text \<open>A store that holds a record for the reader path \<^verbatim>\<open>/p1\<close> and no other.\<close>

definition sample_store :: Agent where
  "sample_store = sample_agent\<lparr>Db := [''/r/p1'' \<mapsto> ''{}'']\<rparr>"

section \<open>Properties\<close>

subsection \<open>What a run stores\<close>

lemmas sample_defs =
  sample_env_def sample_agent_def sample_config_def sample_cmd_Output_def
  sample_Unmarshal_map_def sample_Unmarshal_interface_def sample_Marshal_def
  sample_reader_def sample_writer_def sample_host_def sample_error_payload_def
  sample_record_text_def quoted_def

lemmas run_defs =
  Run_def Run_dispatch_def runCommand_def runCommand_readersData_def
  runGoStructReader_def runGoStructWriter_def runGoStruct_def initGoStructReader_def
  initGoStructWriter_def initGoStructWriter_readersData_def processJson_def
  readers_NewGoStructByConfig_def writers_NewGoStructByConfig_def result_of_def
  saveRun_def hostData_def commonData_def Db_Update_Put_def saveRun_record_def
  GetRunByPath_def pathWithPrefix_def pathWithReaderPrefix_def pathWithWriterPrefix_def
  pathWithReaderOrWriterPrefix_def writers_SetReadersDataInBytes_def Let_def

lemma map_of_commonData:
  "map_of (commonData env config) ''Path'' = Some (String (Path config))"
  "map_of (commonData env config) ''Interval'' =
     Some (String (if Interval config = [] then ''1m'' else Interval config))"
  "map_of (commonData env config) ''Command'' =
     (if Command config = [] then None else Some (String (Command config)))"
  "map_of (commonData env config) ''GoStruct'' =
     (if GoStruct config = [] then None else Some (String (GoStruct config)))"
  by (simp_all add: commonData_def Let_def update_conv')

lemma map_of_saveRun_record:
  "map_of (saveRun_record env a config host runData) ''Path'' = Some (String (Path config))"
  "map_of (saveRun_record env a config host runData) ''Interval'' =
     Some (String (if Interval config = [] then ''1m'' else Interval config))"
  "map_of (saveRun_record env a config host runData) ''Command'' =
     (if Command config = [] then None else Some (String (Command config)))"
  "map_of (saveRun_record env a config host runData) ''GoStruct'' =
     (if GoStruct config = [] then None else Some (String (GoStruct config)))"
  "map_of (saveRun_record env a config host runData) ''Data'' = Some (Map runData)"
  by (simp_all add: saveRun_record_def update_conv' map_of_commonData)

text \<open>\<^verbatim>\<open>saveRun\<close> returns no error for a non-empty path only by storing the record.\<close>

lemma saveRun_persisted:
  assumes "Path config \<noteq> []" and "saveRun env a config output = (None, a')"
  shows "\<exists>host runData recordInJson.
           NewHostByHostname env = Inr host
         \<and> json_Unmarshal_map env output = Inr runData
         \<and> json_Marshal env (Map (saveRun_record env a config host runData)) = Inr recordInJson
         \<and> bolt_Put_error env (pathWithPrefix config) recordInJson = None
         \<and> a' = a\<lparr>Db := (Db a)(pathWithPrefix config \<mapsto> recordInJson)\<rparr>"
  using assms
  by (auto simp: saveRun_def hostData_def Db_Update_Put_def saveRun_record_def Let_def
      split: sum.splits option.splits)

lemma saveRun_success:
  assumes "Path config \<noteq> []"
    and "NewHostByHostname env = Inr host"
    and "json_Unmarshal_map env output = Inr runData"
    and "json_Marshal env (Map (saveRun_record env a config host runData)) = Inr recordInJson"
    and "bolt_Put_error env (pathWithPrefix config) recordInJson = None"
  shows "saveRun env a config output =
           (None, a\<lparr>Db := (Db a)(pathWithPrefix config \<mapsto> recordInJson)\<rparr>)"
  using assms
  by (simp add: saveRun_def hostData_def Db_Update_Put_def saveRun_record_def Let_def)

lemma Run_no_error:
  assumes "fst (snd (Run env a config)) = None"
  shows "\<exists>out. Run_dispatch env a config = (out, None)
           \<and> fst (Run env a config) = out
           \<and> saveRun env a config out = (None, snd (snd (Run env a config)))"
  using assms
  by (auto simp: Run_def split: prod.splits option.splits)

lemma pathWithPrefix_kind:
  "pathWithPrefix config =
     (if Kind config = ''reader'' then ''/r'' @ Path config
      else if Kind config = ''writer'' then ''/w'' @ Path config
      else Path config)"
  by (simp add: pathWithPrefix_def pathWithReaderPrefix_def pathWithWriterPrefix_def
      pathWithReaderOrWriterPrefix_def)

text \<open>
  C1, as amended. For every config with a non-empty \<open>Path\<close>, when \<open>Run\<close> returns
  no error, \<open>GetRunByPath\<close> on the kind-prefixed path (\<^verbatim>\<open>/r<path>\<close> for a
  reader, \<^verbatim>\<open>/w<path>\<close> for a writer) returns the marshalled record whose \<open>Path\<close>
  is the config's, whose \<open>Interval\<close> is the config's or \<^verbatim>\<open>1m\<close> when the config has
  none, and whose \<open>Command\<close> and \<open>GoStruct\<close> are the config's when these are set and
  absent otherwise.
\<close>

theorem Run_success_persists_config_metadata:
  assumes "Path config \<noteq> []" and "fst (snd (Run env a config)) = None"
  shows "\<exists>record recordInJson.
      GetRunByPath (snd (snd (Run env a config))) (pathWithPrefix config) = (recordInJson, None)
    \<and> json_Marshal env (Map record) = Inr recordInJson
    \<and> map_of record ''Path'' = Some (String (Path config))
    \<and> map_of record ''Interval'' =
        Some (String (if Interval config = [] then ''1m'' else Interval config))
    \<and> map_of record ''Command'' =
        (if Command config = [] then None else Some (String (Command config)))
    \<and> map_of record ''GoStruct'' =
        (if GoStruct config = [] then None else Some (String (GoStruct config)))
    \<and> pathWithPrefix config =
        (if Kind config = ''reader'' then ''/r'' @ Path config
         else if Kind config = ''writer'' then ''/w'' @ Path config
         else Path config)"
proof -
  from Run_no_error [OF assms(2)] obtain out where
    save: "saveRun env a config out = (None, snd (snd (Run env a config)))"
    by blast
  from saveRun_persisted [OF assms(1) save] obtain host runData recordInJson where
    m: "json_Marshal env (Map (saveRun_record env a config host runData)) = Inr recordInJson"
    and a': "snd (snd (Run env a config)) = a\<lparr>Db := (Db a)(pathWithPrefix config \<mapsto> recordInJson)\<rparr>"
    by blast
  have "GetRunByPath (snd (snd (Run env a config))) (pathWithPrefix config) = (recordInJson, None)"
    by (simp add: a' GetRunByPath_def)
  with m show ?thesis
    using map_of_saveRun_record [of env a config host runData] pathWithPrefix_kind [of config]
    by blast
qed

text \<open>
  The amended C1 on the sample world: a reader that shells out to \<^verbatim>\<open>echo {}\<close>,
  stored under \<^verbatim>\<open>/r/uptime\<close>.
\<close>

theorem Run_success_persists_config_metadata_witness:
  "Path (sample_config ''reader'' ''/uptime'' ''echo {}'' []) \<noteq> []
   \<and> fst (snd (Run sample_env sample_agent (sample_config ''reader'' ''/uptime'' ''echo {}'' []))) = None
   \<and> (\<exists>record recordInJson.
        GetRunByPath (snd (snd (Run sample_env sample_agent
            (sample_config ''reader'' ''/uptime'' ''echo {}'' [])))) ''/r/uptime''
          = (recordInJson, None)
      \<and> json_Marshal sample_env (Map record) = Inr recordInJson
      \<and> map_of record ''Path'' = Some (String ''/uptime'')
      \<and> map_of record ''Interval'' = Some (String ''1m'')
      \<and> map_of record ''Command'' = Some (String ''echo {}'')
      \<and> map_of record ''GoStruct'' = None)"
proof -
  let ?c = "sample_config ''reader'' ''/uptime'' ''echo {}'' []"
  have h1: "Path ?c \<noteq> []" by (simp add: sample_config_def)
  have h2: "fst (snd (Run sample_env sample_agent ?c)) = None"
    by (simp add: run_defs sample_defs)
  have k: "pathWithPrefix ?c = ''/r/uptime''"
    by (simp add: pathWithPrefix_kind sample_config_def)
  show ?thesis
    using Run_success_persists_config_metadata [OF h1 h2] h1 h2
    by (simp add: k) (simp add: sample_config_def)
qed

text \<open>
  C1 as stated fails. A reader whose command exits with status 1 has a non-empty path,
  its run completes (with the error), and \<open>GetRunByPath\<close> on \<^verbatim>\<open>/r/x\<close> returns
  \<^verbatim>\<open>nil\<close>: no record. And a run that succeeds for a config without an interval
  stores a record whose \<open>Interval\<close> is \<^verbatim>\<open>1m\<close>, not the config's empty one.
\<close>

theorem Run_failed_command_stores_no_record:
  "Path (sample_config ''reader'' ''/x'' ''false'' []) \<noteq> []
   \<and> fst (snd (Run sample_env sample_agent (sample_config ''reader'' ''/x'' ''false'' [])))
       = Some (Error ''exit status 1'')
   \<and> GetRunByPath (snd (snd (Run sample_env sample_agent
         (sample_config ''reader'' ''/x'' ''false'' []))))
       (''/r'' @ Path (sample_config ''reader'' ''/x'' ''false'' [])) = ([], None)
   \<and> Interval (sample_config ''reader'' ''/uptime'' ''echo {}'' []) = []
   \<and> Run sample_env sample_agent (sample_config ''reader'' ''/uptime'' ''echo {}'' [])
       = (''{}'', None, sample_agent\<lparr>Db := [''/r/uptime'' \<mapsto> sample_record_text]\<rparr>)
   \<and> json_Marshal sample_env (Map (saveRun_record sample_env sample_agent
         (sample_config ''reader'' ''/uptime'' ''echo {}'' []) sample_host []))
       = Inr sample_record_text
   \<and> map_of (saveRun_record sample_env sample_agent
         (sample_config ''reader'' ''/uptime'' ''echo {}'' []) sample_host []) ''Interval''
       = Some (String ''1m'')"
  by (simp add: run_defs sample_defs)

subsection \<open>A reader that fails\<close>

lemma runGoStructReader_failing:
  assumes "initGoStructReader env config = Inr reader"
    and "method_Run reader (self reader) = (s', Some err)"
    and "json_Marshal env (Map [(''Error'', String (message err))]) = Inr payload"
  shows "runGoStructReader env a config = (payload, None)"
  using assms
  by (simp add: runGoStructReader_def runGoStruct_def result_of_def)

text \<open>
  C2. A reader dispatched in-process (no \<open>Command\<close>, a \<open>GoStruct\<close>, kind
  \<^verbatim>\<open>reader\<close>) whose \<^verbatim>\<open>Run\<close> method fails: \<open>Run\<close> does not return the
  collector's error. Its output is the marshalled one-field map
  \<^verbatim>\<open>{"Error": message}\<close>, and what it returns besides is what \<open>saveRun\<close> does
  with that payload: nothing when the path is empty, and when the path is not empty and
  the host lookup, the decoding of the payload, the encoding of the record and the
  store's transaction succeed, the record is stored and no error is returned.
\<close>

theorem failing_reader_yields_error_payload:
  assumes "Command config = []" and "GoStruct config \<noteq> []" and "Kind config = ''reader''"
    and "initGoStructReader env config = Inr reader"
    and "method_Run reader (self reader) = (s', Some err)"
    and "json_Marshal env (Map [(''Error'', String (message err))]) = Inr payload"
  shows "Run env a config =
           (payload, fst (saveRun env a config payload), snd (saveRun env a config payload))
       \<and> (Path config = [] \<longrightarrow> Run env a config = (payload, None, a))
       \<and> (Path config \<noteq> []
            \<and> NewHostByHostname env = Inr host
            \<and> json_Unmarshal_map env payload = Inr runData
            \<and> json_Marshal env (Map (saveRun_record env a config host runData)) = Inr recordInJson
            \<and> bolt_Put_error env (pathWithPrefix config) recordInJson = None
          \<longrightarrow> Run env a config =
                (payload, None, a\<lparr>Db := (Db a)(pathWithPrefix config \<mapsto> recordInJson)\<rparr>))"
proof -
  have d: "Run_dispatch env a config = (payload, None)"
    using assms(1-3) runGoStructReader_failing [OF assms(4-6)]
    by (simp add: Run_dispatch_def)
  have r: "Run env a config =
           (payload, fst (saveRun env a config payload), snd (saveRun env a config payload))"
    by (simp add: Run_def d split: prod.splits)
  have e: "Path config = [] \<longrightarrow> Run env a config = (payload, None, a)"
    by (simp add: r saveRun_def)
  have p: "Path config \<noteq> []
            \<and> NewHostByHostname env = Inr host
            \<and> json_Unmarshal_map env payload = Inr runData
            \<and> json_Marshal env (Map (saveRun_record env a config host runData)) = Inr recordInJson
            \<and> bolt_Put_error env (pathWithPrefix config) recordInJson = None
          \<longrightarrow> Run env a config =
                (payload, None, a\<lparr>Db := (Db a)(pathWithPrefix config \<mapsto> recordInJson)\<rparr>)"
    by (auto simp: r dest: saveRun_success)
  from r e p show ?thesis by blast
qed

text \<open>
  C2 on the sample world: the reader \<^verbatim>\<open>Failing\<close>, once with the path
  \<^verbatim>\<open>/cpu\<close> and once without a path.
\<close>

theorem failing_reader_yields_error_payload_witness:
  "Command (sample_config ''reader'' ''/cpu'' [] ''Failing'') = []
   \<and> GoStruct (sample_config ''reader'' ''/cpu'' [] ''Failing'') \<noteq> []
   \<and> Kind (sample_config ''reader'' ''/cpu'' [] ''Failing'') = ''reader''
   \<and> initGoStructReader sample_env (sample_config ''reader'' ''/cpu'' [] ''Failing'')
       = Inr (sample_reader True)
   \<and> method_Run (sample_reader True) (self (sample_reader True)) = ([], Some (Error ''boom''))
   \<and> json_Marshal sample_env (Map [(''Error'', String (message (Error ''boom'')))])
       = Inr sample_error_payload
   \<and> Path (sample_config ''reader'' ''/cpu'' [] ''Failing'') \<noteq> []
   \<and> NewHostByHostname sample_env = Inr sample_host
   \<and> json_Unmarshal_map sample_env sample_error_payload = Inr [(''Error'', String ''boom'')]
   \<and> json_Marshal sample_env (Map (saveRun_record sample_env sample_agent
         (sample_config ''reader'' ''/cpu'' [] ''Failing'') sample_host
         [(''Error'', String ''boom'')])) = Inr sample_record_text
   \<and> pathWithPrefix (sample_config ''reader'' ''/cpu'' [] ''Failing'') = ''/r/cpu''
   \<and> bolt_Put_error sample_env ''/r/cpu'' sample_record_text = None
   \<and> Run sample_env sample_agent (sample_config ''reader'' ''/cpu'' [] ''Failing'')
       = (sample_error_payload, None,
          sample_agent\<lparr>Db := (Db sample_agent)(''/r/cpu'' \<mapsto> sample_record_text)\<rparr>)
   \<and> Path (sample_config ''reader'' [] [] ''Failing'') = []
   \<and> Run sample_env sample_agent (sample_config ''reader'' [] [] ''Failing'')
       = (sample_error_payload, None, sample_agent)"
proof -
  let ?c = "sample_config ''reader'' ''/cpu'' [] ''Failing''"
  let ?d = "sample_config ''reader'' [] [] ''Failing''"
  have c1: "Command ?c = []" and c2: "GoStruct ?c \<noteq> []" and c3: "Kind ?c = ''reader''"
    and c7: "Path ?c \<noteq> []"
    by (simp_all add: sample_config_def)
  have d1: "Command ?d = []" and d2: "GoStruct ?d \<noteq> []" and d3: "Kind ?d = ''reader''"
    and d7: "Path ?d = []"
    by (simp_all add: sample_config_def)
  have c4: "initGoStructReader sample_env ?c = Inr (sample_reader True)"
    and d4: "initGoStructReader sample_env ?d = Inr (sample_reader True)"
    by (simp_all add: initGoStructReader_def readers_NewGoStructByConfig_def sample_env_def
        sample_config_def)
  have c5: "method_Run (sample_reader True) (self (sample_reader True)) = ([], Some (Error ''boom''))"
    by (simp add: sample_reader_def)
  have c6: "json_Marshal sample_env (Map [(''Error'', String (message (Error ''boom'')))])
       = Inr sample_error_payload"
    by (simp add: sample_env_def sample_Marshal_def)
  have c8: "NewHostByHostname sample_env = Inr sample_host" by (simp add: sample_env_def)
  have c9: "json_Unmarshal_map sample_env sample_error_payload = Inr [(''Error'', String ''boom'')]"
    by (simp add: sample_defs)
  have c10: "json_Marshal sample_env (Map (saveRun_record sample_env sample_agent ?c sample_host
         [(''Error'', String ''boom'')])) = Inr sample_record_text"
    by (simp add: sample_defs saveRun_record_def commonData_def Let_def)
  have k: "pathWithPrefix ?c = ''/r/cpu''"
    by (simp add: pathWithPrefix_kind sample_config_def)
  have c11: "bolt_Put_error sample_env ''/r/cpu'' sample_record_text = None"
    by (simp add: sample_env_def)
  note t = failing_reader_yields_error_payload [OF c1 c2 c3 c4 c5 c6,
        of sample_agent sample_host "[(''Error'', String ''boom'')]" sample_record_text]
  have r1: "Run sample_env sample_agent ?c = (sample_error_payload, None,
          sample_agent\<lparr>Db := (Db sample_agent)(''/r/cpu'' \<mapsto> sample_record_text)\<rparr>)"
    using t [THEN conjunct2, THEN conjunct2] c7 c8 c9 c10 c11 unfolding k by blast
  have r2: "Run sample_env sample_agent ?d = (sample_error_payload, None, sample_agent)"
    using failing_reader_yields_error_payload [OF d1 d2 d3 d4 c5 c6, of sample_agent,
        THEN conjunct2, THEN conjunct1] d7
    by blast
  from c1 c2 c3 c4 c5 c6 c7 c8 c9 c10 k c11 r1 d7 r2 show ?thesis by blast
qed

subsection \<open>Errors that skip persistence\<close>

text \<open>
  Whatever makes the construction of the task fail, \<open>Run\<close> returns that error with
  no output and leaves the store as it was.
\<close>

lemma Run_construction_error:
  assumes "Command config = []" and "GoStruct config \<noteq> []"
    and "(Kind config = ''reader'' \<and> initGoStructReader env config = Inl err)
       \<or> (Kind config = ''writer'' \<and> initGoStructWriter env a config = Inl err)"
  shows "Run env a config = ([], Some err, a)"
  using assms
  by (auto simp: Run_def Run_dispatch_def runGoStructReader_def runGoStructWriter_def)

text \<open>
  C4, as amended. For a config dispatched in-process (no \<open>Command\<close>, kind
  \<^verbatim>\<open>reader\<close> or \<^verbatim>\<open>writer\<close>) whose \<open>GoStruct\<close> is not in the registry of its
  kind, \<open>Run\<close> returns the construction error to its caller, with no output, and
  the store is unchanged: no record is persisted, whatever the path.
\<close>

theorem unregistered_GoStruct_error_surfaced_nothing_stored:
  assumes "Command config = []" and "GoStruct config \<noteq> []"
    and "(Kind config = ''reader'' \<and> readerConstructors env (GoStruct config) = None)
       \<or> (Kind config = ''writer'' \<and> writerConstructors env (GoStruct config) = None)"
  shows "Run env a config = ([], Some (Error ''GoStruct is undefined.''), a)"
proof -
  from assms(3) have "(Kind config = ''reader''
        \<and> initGoStructReader env config = Inl (Error ''GoStruct is undefined.''))
     \<or> (Kind config = ''writer''
        \<and> initGoStructWriter env a config = Inl (Error ''GoStruct is undefined.''))"
    by (auto simp: initGoStructReader_def initGoStructWriter_def
        readers_NewGoStructByConfig_def writers_NewGoStructByConfig_def)
  with assms(1,2) show ?thesis by (rule Run_construction_error)
qed

text \<open>The amended C4 on the sample world, for a reader and for a writer.\<close>

theorem unregistered_GoStruct_error_surfaced_nothing_stored_witness:
  "Command (sample_config ''reader'' ''/x'' [] ''Nope'') = []
   \<and> GoStruct (sample_config ''reader'' ''/x'' [] ''Nope'') \<noteq> []
   \<and> Kind (sample_config ''reader'' ''/x'' [] ''Nope'') = ''reader''
   \<and> readerConstructors sample_env (GoStruct (sample_config ''reader'' ''/x'' [] ''Nope'')) = None
   \<and> Run sample_env sample_agent (sample_config ''reader'' ''/x'' [] ''Nope'')
       = ([], Some (Error ''GoStruct is undefined.''), sample_agent)
   \<and> Command (sample_config ''writer'' ''/y'' [] ''Nope'') = []
   \<and> GoStruct (sample_config ''writer'' ''/y'' [] ''Nope'') \<noteq> []
   \<and> Kind (sample_config ''writer'' ''/y'' [] ''Nope'') = ''writer''
   \<and> writerConstructors sample_env (GoStruct (sample_config ''writer'' ''/y'' [] ''Nope'')) = None
   \<and> Run sample_env sample_agent (sample_config ''writer'' ''/y'' [] ''Nope'')
       = ([], Some (Error ''GoStruct is undefined.''), sample_agent)"
proof -
  let ?c = "sample_config ''reader'' ''/x'' [] ''Nope''"
  let ?d = "sample_config ''writer'' ''/y'' [] ''Nope''"
  have c1: "Command ?c = []" and c2: "GoStruct ?c \<noteq> []" and c3: "Kind ?c = ''reader''"
    and c4: "readerConstructors sample_env (GoStruct ?c) = None"
    by (simp_all add: sample_config_def sample_env_def)
  have d1: "Command ?d = []" and d2: "GoStruct ?d \<noteq> []" and d3: "Kind ?d = ''writer''"
    and d4: "writerConstructors sample_env (GoStruct ?d) = None"
    by (simp_all add: sample_config_def sample_env_def)
  from c3 c4 have c5: "(Kind ?c = ''reader'' \<and> readerConstructors sample_env (GoStruct ?c) = None)
       \<or> (Kind ?c = ''writer'' \<and> writerConstructors sample_env (GoStruct ?c) = None)"
    by blast
  from d3 d4 have d5: "(Kind ?d = ''reader'' \<and> readerConstructors sample_env (GoStruct ?d) = None)
       \<or> (Kind ?d = ''writer'' \<and> writerConstructors sample_env (GoStruct ?d) = None)"
    by blast
  show ?thesis
    using unregistered_GoStruct_error_surfaced_nothing_stored [OF c1 c2 c5, of sample_agent]
      unregistered_GoStruct_error_surfaced_nothing_stored [OF d1 d2 d5, of sample_agent]
      c1 c2 c3 c4 d1 d2 d3 d4
    by blast
qed

text \<open>
  C4 as stated fails. The reader config names the unregistered \<^verbatim>\<open>Nope\<close> and has
  the path \<^verbatim>\<open>/x\<close>; \<open>Run\<close> returns the construction error, and afterwards
  \<open>GetRunByPath\<close> on \<^verbatim>\<open>/r/x\<close> returns \<^verbatim>\<open>nil\<close>: no error-payload record was
  persisted.
\<close>

theorem unregistered_GoStruct_stores_no_error_record:
  "GoStruct (sample_config ''reader'' ''/x'' [] ''Nope'') = ''Nope''
   \<and> readerConstructors sample_env ''Nope'' = None
   \<and> Path (sample_config ''reader'' ''/x'' [] ''Nope'') = ''/x''
   \<and> fst (snd (Run sample_env sample_agent (sample_config ''reader'' ''/x'' [] ''Nope'')))
       = Some (Error ''GoStruct is undefined.'')
   \<and> GetRunByPath (snd (snd (Run sample_env sample_agent
         (sample_config ''reader'' ''/x'' [] ''Nope'')))) ''/r/x'' = ([], None)"
  by (simp add: run_defs sample_defs)

lemma Run_dispatch_error:
  "Run_dispatch env a config = (out, Some err) \<Longrightarrow> Run env a config = (out, Some err, a)"
  by (simp add: Run_def)

text \<open>
  C5. When the shell-out command fails (it exits non-zero or cannot be spawned:
  \<^verbatim>\<open>Output()\<close> returns an error), and when the post-processing command of an
  in-process writer fails or prints what does not parse as a JSON object, \<open>Run\<close>
  returns that error and the agent's store is the one it started with: no record is
  written.
\<close>

theorem failed_command_skips_persistence:
  "(Command config \<noteq> []
      \<and> (if Kind config = ''writer''
          then json_Marshal env (Map (runCommand_readersData env a config)) = Inr stdin
          else True)
      \<and> cmd_Output env (Command config) (if Kind config = ''writer'' then Some stdin else None)
          = (out, Some err)
    \<longrightarrow> Run env a config = (out, Some err, a))
   \<and> (Command config = [] \<and> GoStruct config \<noteq> [] \<and> Kind config = ''writer''
      \<and> initGoStructWriter env a config = Inr writer
      \<and> method_GetJsonProcessor writer (self writer) \<noteq> []
      \<and> json_Marshal env (Map (method_GetReadersData writer (self writer))) = Inr readersDataJsonBytes
      \<and> (cmd_Output env (method_GetJsonProcessor writer (self writer)) (Some readersDataJsonBytes)
            = (out', Some err')
          \<or> cmd_Output env (method_GetJsonProcessor writer (self writer)) (Some readersDataJsonBytes)
            = (out', None)
            \<and> json_Unmarshal_map env out' = Inl err')
    \<longrightarrow> Run env a config = ([], Some err', a))"
proof (intro conjI impI)
  assume h: "Command config \<noteq> []
      \<and> (if Kind config = ''writer''
          then json_Marshal env (Map (runCommand_readersData env a config)) = Inr stdin
          else True)
      \<and> cmd_Output env (Command config) (if Kind config = ''writer'' then Some stdin else None)
          = (out, Some err)"
  then have "Run_dispatch env a config = (out, Some err)"
    by (auto simp: Run_dispatch_def runCommand_def split: if_splits)
  then show "Run env a config = (out, Some err, a)" by (rule Run_dispatch_error)
next
  assume h: "Command config = [] \<and> GoStruct config \<noteq> [] \<and> Kind config = ''writer''
      \<and> initGoStructWriter env a config = Inr writer
      \<and> method_GetJsonProcessor writer (self writer) \<noteq> []
      \<and> json_Marshal env (Map (method_GetReadersData writer (self writer))) = Inr readersDataJsonBytes
      \<and> (cmd_Output env (method_GetJsonProcessor writer (self writer)) (Some readersDataJsonBytes)
            = (out', Some err')
          \<or> cmd_Output env (method_GetJsonProcessor writer (self writer)) (Some readersDataJsonBytes)
            = (out', None)
            \<and> json_Unmarshal_map env out' = Inl err')"
  then have "fst (processJson env config writer) = Some err'"
    by (auto simp: processJson_def Let_def)
  with h have "Run_dispatch env a config = ([], Some err')"
    by (auto simp: Run_dispatch_def runGoStructWriter_def split: prod.splits)
  then show "Run env a config = ([], Some err', a)" by (rule Run_dispatch_error)
qed

lemma sample_initGoStructWriter:
  "initGoStructWriter sample_env sample_agent (sample_config ''writer'' p [] ''Strict'')
     = Inr (sample_writer ''false'')"
  "initGoStructWriter sample_env sample_agent (sample_config ''writer'' p [] ''Chatty'')
     = Inr (sample_writer ''echo hi'')"
  by (simp_all add: initGoStructWriter_def initGoStructWriter_readersData_def
      writers_SetReadersDataInBytes_def writers_NewGoStructByConfig_def sample_env_def
      sample_config_def sample_writer_def)

text \<open>
  C5 on the sample world: a reader whose command exits with status 1, the writer
  \<^verbatim>\<open>Strict\<close> whose post-processor exits with status 1, and the writer
  \<^verbatim>\<open>Chatty\<close> whose post-processor prints text that is not JSON.
\<close>

theorem failed_command_skips_persistence_witness:
  "Command (sample_config ''reader'' ''/x'' ''false'' []) \<noteq> []
   \<and> Kind (sample_config ''reader'' ''/x'' ''false'' []) \<noteq> ''writer''
   \<and> cmd_Output sample_env (Command (sample_config ''reader'' ''/x'' ''false'' [])) None
       = ([], Some (Error ''exit status 1''))
   \<and> Run sample_env sample_agent (sample_config ''reader'' ''/x'' ''false'' [])
       = ([], Some (Error ''exit status 1''), sample_agent)
   \<and> initGoStructWriter sample_env sample_agent (sample_config ''writer'' ''/y'' [] ''Strict'')
       = Inr (sample_writer ''false'')
   \<and> method_GetJsonProcessor (sample_writer ''false'') (self (sample_writer ''false'')) = ''false''
   \<and> json_Marshal sample_env
         (Map (method_GetReadersData (sample_writer ''false'') (self (sample_writer ''false''))))
       = Inr ''{}''
   \<and> cmd_Output sample_env ''false'' (Some ''{}'') = ([], Some (Error ''exit status 1''))
   \<and> Run sample_env sample_agent (sample_config ''writer'' ''/y'' [] ''Strict'')
       = ([], Some (Error ''exit status 1''), sample_agent)
   \<and> initGoStructWriter sample_env sample_agent (sample_config ''writer'' ''/z'' [] ''Chatty'')
       = Inr (sample_writer ''echo hi'')
   \<and> cmd_Output sample_env ''echo hi'' (Some ''{}'') = (''hi'', None)
   \<and> json_Unmarshal_map sample_env ''hi'' = Inl (Error ''invalid character'')
   \<and> Run sample_env sample_agent (sample_config ''writer'' ''/z'' [] ''Chatty'')
       = ([], Some (Error ''invalid character''), sample_agent)"
proof -
  let ?c = "sample_config ''reader'' ''/x'' ''false'' []"
  let ?s = "sample_config ''writer'' ''/y'' [] ''Strict''"
  let ?t = "sample_config ''writer'' ''/z'' [] ''Chatty''"
  have c1: "Command ?c \<noteq> []" and c2: "Kind ?c \<noteq> ''writer''"
    and c3: "cmd_Output sample_env (Command ?c) None = ([], Some (Error ''exit status 1''))"
    by (simp_all add: sample_config_def sample_env_def sample_cmd_Output_def)
  have r1: "Run sample_env sample_agent ?c = ([], Some (Error ''exit status 1''), sample_agent)"
    using failed_command_skips_persistence [of ?c sample_env sample_agent "[]" "[]"
        "Error ''exit status 1''", THEN conjunct1] c1 c2 c3
    by simp
  have s1: "Command ?s = []" and s2: "GoStruct ?s \<noteq> []" and s3: "Kind ?s = ''writer''"
    and t1: "Command ?t = []" and t2: "GoStruct ?t \<noteq> []" and t3: "Kind ?t = ''writer''"
    by (simp_all add: sample_config_def)
  note s4 = sample_initGoStructWriter(1) [of "''/y''"]
  note t4 = sample_initGoStructWriter(2) [of "''/z''"]
  have s5: "method_GetJsonProcessor (sample_writer ''false'') (self (sample_writer ''false'')) = ''false''"
    and t5: "method_GetJsonProcessor (sample_writer ''echo hi'') (self (sample_writer ''echo hi'')) = ''echo hi''"
    by (simp_all add: sample_writer_def)
  have s6: "json_Marshal sample_env
         (Map (method_GetReadersData (sample_writer ''false'') (self (sample_writer ''false''))))
       = Inr ''{}''"
    and t6: "json_Marshal sample_env
         (Map (method_GetReadersData (sample_writer ''echo hi'') (self (sample_writer ''echo hi''))))
       = Inr ''{}''"
    by (simp_all add: sample_writer_def sample_env_def sample_Marshal_def)
  have s7: "cmd_Output sample_env ''false'' (Some ''{}'') = ([], Some (Error ''exit status 1''))"
    and t7: "cmd_Output sample_env ''echo hi'' (Some ''{}'') = (''hi'', None)"
    and t8: "json_Unmarshal_map sample_env ''hi'' = Inl (Error ''invalid character'')"
    by (simp_all add: sample_defs)
  have r2: "Run sample_env sample_agent ?s = ([], Some (Error ''exit status 1''), sample_agent)"
    using failed_command_skips_persistence [of ?s sample_env sample_agent _ _ _
        "sample_writer ''false''" "''{}''" "[]" "Error ''exit status 1''", THEN conjunct2]
      s1 s2 s3 s4 s5 s6 s7
    by simp
  have r3: "Run sample_env sample_agent ?t = ([], Some (Error ''invalid character''), sample_agent)"
    using failed_command_skips_persistence [of ?t sample_env sample_agent _ _ _
        "sample_writer ''echo hi''" "''{}''" "''hi''" "Error ''invalid character''", THEN conjunct2]
      t1 t2 t3 t4 t5 t6 t7 t8
    by simp
  from c1 c2 c3 r1 s4 s5 s6 s7 r2 t4 t7 t8 r3 show ?thesis by blast
qed

subsection \<open>Configs matched by no arm\<close>

text \<open>
  C6, as amended. For a config matched by none of the three arms (no \<open>Command\<close>,
  and no \<open>GoStruct\<close> or a kind that is neither \<^verbatim>\<open>reader\<close> nor \<^verbatim>\<open>writer\<close>),
  \<open>Run\<close> returns no output and then does what \<open>saveRun\<close> does with the empty
  output: with an empty path nothing, so the run is a no-op without an error; with a
  non-empty path, once the host lookup has succeeded, the error of decoding the empty
  output, and nothing is stored.
\<close>

theorem unmatched_config_Run:
  assumes "Command config = []"
    and "GoStruct config = [] \<or> (Kind config \<noteq> ''reader'' \<and> Kind config \<noteq> ''writer'')"
  shows "fst (Run env a config) = []
       \<and> snd (Run env a config) = saveRun env a config []
       \<and> (Path config = [] \<longrightarrow> Run env a config = ([], None, a))
       \<and> (Path config \<noteq> [] \<and> NewHostByHostname env = Inr host
            \<and> json_Unmarshal_map env [] = Inl err
          \<longrightarrow> Run env a config = ([], Some err, a))"
proof -
  have d: "Run_dispatch env a config = ([], None)"
    using assms by (auto simp: Run_dispatch_def)
  have r: "Run env a config = ([], saveRun env a config [])"
    by (simp add: Run_def d split: prod.splits)
  show ?thesis
    by (simp add: r) (simp add: saveRun_def hostData_def Let_def)
qed

text \<open>
  The amended C6 on the sample world: a config with nothing set, and a config of the
  unknown kind \<^verbatim>\<open>probe\<close> with a path.
\<close>

theorem unmatched_config_Run_witness:
  "Command (sample_config ''reader'' [] [] []) = []
   \<and> GoStruct (sample_config ''reader'' [] [] []) = []
   \<and> Path (sample_config ''reader'' [] [] []) = []
   \<and> Run sample_env sample_agent (sample_config ''reader'' [] [] []) = ([], None, sample_agent)
   \<and> Command (sample_config ''probe'' ''/x'' [] ''Uptime'') = []
   \<and> Kind (sample_config ''probe'' ''/x'' [] ''Uptime'') \<noteq> ''reader''
   \<and> Kind (sample_config ''probe'' ''/x'' [] ''Uptime'') \<noteq> ''writer''
   \<and> Path (sample_config ''probe'' ''/x'' [] ''Uptime'') \<noteq> []
   \<and> NewHostByHostname sample_env = Inr sample_host
   \<and> json_Unmarshal_map sample_env [] = Inl (Error ''unexpected end of JSON input'')
   \<and> Run sample_env sample_agent (sample_config ''probe'' ''/x'' [] ''Uptime'')
       = ([], Some (Error ''unexpected end of JSON input''), sample_agent)"
proof -
  let ?c = "sample_config ''reader'' [] [] []"
  let ?d = "sample_config ''probe'' ''/x'' [] ''Uptime''"
  have c1: "Command ?c = []" and c2: "GoStruct ?c = []" and c3: "Path ?c = []"
    by (simp_all add: sample_config_def)
  have d1: "Command ?d = []" and d2: "Kind ?d \<noteq> ''reader''" and d3: "Kind ?d \<noteq> ''writer''"
    and d4: "Path ?d \<noteq> []"
    by (simp_all add: sample_config_def)
  have h: "NewHostByHostname sample_env = Inr sample_host"
    and u: "json_Unmarshal_map sample_env [] = Inl (Error ''unexpected end of JSON input'')"
    by (simp_all add: sample_env_def sample_Unmarshal_map_def)
  from c2 have c5: "GoStruct ?c = [] \<or> (Kind ?c \<noteq> ''reader'' \<and> Kind ?c \<noteq> ''writer'')"
    by blast
  from d2 d3 have d5: "GoStruct ?d = [] \<or> (Kind ?d \<noteq> ''reader'' \<and> Kind ?d \<noteq> ''writer'')"
    by blast
  show ?thesis
    using unmatched_config_Run [OF c1 c5, of sample_env sample_agent]
      unmatched_config_Run [OF d1 d5, of sample_env sample_agent sample_host
        "Error ''unexpected end of JSON input''"]
      c1 c2 c3 d1 d2 d3 d4 h u
    by blast
qed

text \<open>
  C6 as stated fails. A reader config with neither \<open>Command\<close> nor \<open>GoStruct\<close>
  and the path \<^verbatim>\<open>/x\<close> is matched by no arm, and \<open>Run\<close> returns an error:
  \<^verbatim>\<open>saveRun\<close> is still called, and \<^verbatim>\<open>json.Unmarshal\<close> rejects the empty output.
\<close>

theorem unmatched_config_with_Path_returns_error:
  "Command (sample_config ''reader'' ''/x'' [] []) = []
   \<and> GoStruct (sample_config ''reader'' ''/x'' [] []) = []
   \<and> Path (sample_config ''reader'' ''/x'' [] []) = ''/x''
   \<and> Run sample_env sample_agent (sample_config ''reader'' ''/x'' [] [])
       = ([], Some (Error ''unexpected end of JSON input''), sample_agent)"
  by (simp add: run_defs sample_defs)

subsection \<open>The readers' data a writer is given\<close>

lemma absent_path_distinct:
  assumes "Db a (pathWithReaderPrefix (StringInput p1)) = Some b1"
    and "Db a (pathWithReaderPrefix (StringInput p2)) = None"
  shows "p1 \<noteq> p2"
  using assms by auto

text \<open>
  The shell-out path: a reader path without a stored record is skipped, because
  \<^verbatim>\<open>json.Unmarshal\<close> rejects the \<^verbatim>\<open>nil\<close> bytes \<open>GetRunByPath\<close> returns for it.
\<close>

lemma runCommand_readersData_skips_absent_path:
  assumes "ReaderPaths config = [p1, p2]"
    and "Db a (pathWithReaderPrefix (StringInput p1)) = Some b1"
    and "Db a (pathWithReaderPrefix (StringInput p2)) = None"
    and "json_Unmarshal_interface env b1 = Inr d1"
    and "json_Unmarshal_interface env [] = Inl err"
  shows "runCommand_readersData env a config = [(p1, d1)]"
  using assms
  by (simp add: runCommand_readersData_def runCommand_readersData_step_def GetRunByPath_def)

text \<open>
  The in-process path: the map \<^verbatim>\<open>initGoStructWriter\<close> hands to
  \<^verbatim>\<open>SetReadersDataInBytes\<close> has both reader paths, the one without a stored record
  with \<^verbatim>\<open>nil\<close> bytes (\<open>GetRunByPath\<close> never returns an error).
\<close>

lemma initGoStructWriter_readersData_two_paths:
  assumes "ReaderPaths config = [p1, p2]"
    and "Db a (pathWithReaderPrefix (StringInput p1)) = Some b1"
    and "Db a (pathWithReaderPrefix (StringInput p2)) = None"
  shows "initGoStructWriter_readersData a config = [(p1, b1), (p2, [])]"
proof -
  have ne: "p1 \<noteq> p2" using assms(2,3) by (rule absent_path_distinct)
  show ?thesis
    using assms ne
    by (simp add: initGoStructWriter_readersData_def initGoStructWriter_readersData_step_def
        GetRunByPath_def)
qed

text \<open>Decoding that map leaves the reader path without a stored record out.\<close>

lemma writers_SetReadersDataInBytes_two_paths:
  assumes "unmarshal b1 = Inr d1" and "unmarshal [] = Inl err"
  shows "writers_SetReadersDataInBytes unmarshal [(p1, b1), (p2, [])] = [(p1, d1)]"
  using assms by (simp add: writers_SetReadersDataInBytes_def)

text \<open>
  C3. For a writer config with \<open>ReaderPaths = [p1, p2]\<close> where the store holds a
  record for \<open>p1\<close> (bytes that decode) and none for \<open>p2\<close>, the readers' data the
  writer is given has the domain \<open>{p1}\<close>, and the absence of \<open>p2\<close>'s record
  produces no error. On the shell-out path the map that is marshalled to the command's
  standard input is \<open>[(p1, d1)]\<close>, and the run's result is the command's. On the
  in-process path the construction of the writer returns no error, and a writer whose
  raw setter is the one modelled from the spec then holds \<open>[(p1, d1)]\<close>.
  \<^verbatim>\<open>json.Unmarshal\<close> rejects the empty input: that is the hypothesis on \<open>[]\<close>.
\<close>

theorem writer_given_only_stored_reader_paths:
  assumes "ReaderPaths config = [p1, p2]"
    and "Db a (pathWithReaderPrefix (StringInput p1)) = Some b1"
    and "Db a (pathWithReaderPrefix (StringInput p2)) = None"
    and "json_Unmarshal_interface env b1 = Inr d1"
    and "json_Unmarshal_interface env [] = Inl err"
  shows "runCommand_readersData env a config = [(p1, d1)]
       \<and> fst ` set (runCommand_readersData env a config) = {p1}
       \<and> (Kind config = ''writer'' \<and> json_Marshal env (Map [(p1, d1)]) = Inr stdin
          \<longrightarrow> runCommand env a config = cmd_Output env (Command config) (Some stdin))
       \<and> (writers_NewGoStructByConfig env config = Inr writer
            \<and> (\<forall>raw s. method_GetReadersData writer (method_SetReadersDataInBytes writer raw s)
                  = writers_SetReadersDataInBytes (json_Unmarshal_interface env) raw)
          \<longrightarrow> (\<exists>writer'. initGoStructWriter env a config = Inr writer'
                \<and> method_GetReadersData writer' (self writer') = [(p1, d1)]
                \<and> fst ` set (method_GetReadersData writer' (self writer')) = {p1}))"
proof -
  have sh: "runCommand_readersData env a config = [(p1, d1)]"
    using assms by (rule runCommand_readersData_skips_absent_path)
  have raw: "initGoStructWriter_readersData a config = [(p1, b1), (p2, [])]"
    using assms(1-3) by (rule initGoStructWriter_readersData_two_paths)
  have dec: "writers_SetReadersDataInBytes (json_Unmarshal_interface env) [(p1, b1), (p2, [])]
      = [(p1, d1)]"
    using assms(4,5) by (rule writers_SetReadersDataInBytes_two_paths)
  have c1: "fst ` set (runCommand_readersData env a config) = {p1}"
    by (simp add: sh)
  have c2: "Kind config = ''writer'' \<and> json_Marshal env (Map [(p1, d1)]) = Inr stdin
          \<longrightarrow> runCommand env a config = cmd_Output env (Command config) (Some stdin)"
    by (simp add: runCommand_def sh)
  have c3: "writers_NewGoStructByConfig env config = Inr writer
            \<and> (\<forall>raw s. method_GetReadersData writer (method_SetReadersDataInBytes writer raw s)
                  = writers_SetReadersDataInBytes (json_Unmarshal_interface env) raw)
          \<longrightarrow> (\<exists>writer'. initGoStructWriter env a config = Inr writer'
                \<and> method_GetReadersData writer' (self writer') = [(p1, d1)]
                \<and> fst ` set (method_GetReadersData writer' (self writer')) = {p1})"
    by (simp add: initGoStructWriter_def raw dec)
  from sh c1 c2 c3 show ?thesis by blast
qed

text \<open>
  C3 on the sample store, which holds \<^verbatim>\<open>/r/p1\<close> only: the writer \<^verbatim>\<open>Strict\<close>
  built in-process, and a writer that shells out to \<^verbatim>\<open>echo {}\<close>.
\<close>

theorem writer_given_only_stored_reader_paths_witness:
  "ReaderPaths ((sample_config ''writer'' ''/alert'' [] ''Strict'')\<lparr>ReaderPaths := [''/p1'', ''/p2'']\<rparr>)
     = [''/p1'', ''/p2'']
   \<and> Db sample_store (pathWithReaderPrefix (StringInput ''/p1'')) = Some ''{}''
   \<and> Db sample_store (pathWithReaderPrefix (StringInput ''/p2'')) = None
   \<and> json_Unmarshal_interface sample_env ''{}'' = Inr (Map [])
   \<and> json_Unmarshal_interface sample_env [] = Inl (Error ''unexpected end of JSON input'')
   \<and> writers_NewGoStructByConfig sample_env
        ((sample_config ''writer'' ''/alert'' [] ''Strict'')\<lparr>ReaderPaths := [''/p1'', ''/p2'']\<rparr>)
     = Inr (sample_writer ''false'')
   \<and> (\<forall>raw s. method_GetReadersData (sample_writer ''false'')
                 (method_SetReadersDataInBytes (sample_writer ''false'') raw s)
               = writers_SetReadersDataInBytes (json_Unmarshal_interface sample_env) raw)
   \<and> (\<exists>writer'. initGoStructWriter sample_env sample_store
          ((sample_config ''writer'' ''/alert'' [] ''Strict'')\<lparr>ReaderPaths := [''/p1'', ''/p2'']\<rparr>)
          = Inr writer'
        \<and> method_GetReadersData writer' (self writer') = [(''/p1'', Map [])]
        \<and> fst ` set (method_GetReadersData writer' (self writer')) = {''/p1''})
   \<and> Kind ((sample_config ''writer'' ''/alert'' ''echo {}'' [])\<lparr>ReaderPaths := [''/p1'', ''/p2'']\<rparr>)
     = ''writer''
   \<and> json_Marshal sample_env (Map [(''/p1'', Map [])]) = Inr sample_record_text
   \<and> runCommand_readersData sample_env sample_store
        ((sample_config ''writer'' ''/alert'' ''echo {}'' [])\<lparr>ReaderPaths := [''/p1'', ''/p2'']\<rparr>)
     = [(''/p1'', Map [])]
   \<and> runCommand sample_env sample_store
        ((sample_config ''writer'' ''/alert'' ''echo {}'' [])\<lparr>ReaderPaths := [''/p1'', ''/p2'']\<rparr>)
     = cmd_Output sample_env ''echo {}'' (Some sample_record_text)
   \<and> cmd_Output sample_env ''echo {}'' (Some sample_record_text) = (''{}'', None)"
proof -
  let ?c = "(sample_config ''writer'' ''/alert'' [] ''Strict'')\<lparr>ReaderPaths := [''/p1'', ''/p2'']\<rparr>"
  let ?d = "(sample_config ''writer'' ''/alert'' ''echo {}'' [])\<lparr>ReaderPaths := [''/p1'', ''/p2'']\<rparr>"
  have h1: "ReaderPaths ?c = [''/p1'', ''/p2'']" by simp
  have g1: "ReaderPaths ?d = [''/p1'', ''/p2'']" by simp
  have h2: "Db sample_store (pathWithReaderPrefix (StringInput ''/p1'')) = Some ''{}''"
    and h3: "Db sample_store (pathWithReaderPrefix (StringInput ''/p2'')) = None"
    by (simp_all add: sample_store_def sample_agent_def pathWithReaderPrefix_def
        pathWithReaderOrWriterPrefix_def)
  have u1: "json_Unmarshal_interface sample_env ''{}'' = Inr (Map [])"
    and u2: "json_Unmarshal_interface sample_env [] = Inl (Error ''unexpected end of JSON input'')"
    by (simp_all add: sample_env_def sample_Unmarshal_interface_def sample_Unmarshal_map_def)
  have h4: "writers_NewGoStructByConfig sample_env ?c = Inr (sample_writer ''false'')"
    by (simp add: writers_NewGoStructByConfig_def sample_env_def sample_config_def)
  have h5: "\<forall>raw s. method_GetReadersData (sample_writer ''false'')
                 (method_SetReadersDataInBytes (sample_writer ''false'') raw s)
               = writers_SetReadersDataInBytes (json_Unmarshal_interface sample_env) raw"
    by (simp add: sample_writer_def sample_env_def)
  have g2: "Kind ?d = ''writer''" and g5: "Command ?d = ''echo {}''"
    by (simp_all add: sample_config_def)
  have g3: "json_Marshal sample_env (Map [(''/p1'', Map [])]) = Inr sample_record_text"
    by (simp add: sample_env_def sample_Marshal_def)
  have g4: "cmd_Output sample_env ''echo {}'' (Some sample_record_text) = (''{}'', None)"
    by (simp add: sample_env_def sample_cmd_Output_def)
  note tc = writer_given_only_stored_reader_paths [OF h1 h2 h3 u1 u2,
      of _ "sample_writer ''false''"]
  note td = writer_given_only_stored_reader_paths [OF g1 h2 h3 u1 u2,
      of sample_record_text]
  have r1: "\<exists>writer'. initGoStructWriter sample_env sample_store ?c = Inr writer'
        \<and> method_GetReadersData writer' (self writer') = [(''/p1'', Map [])]
        \<and> fst ` set (method_GetReadersData writer' (self writer')) = {''/p1''}"
    using tc h4 h5 by blast
  have r2: "runCommand_readersData sample_env sample_store ?d = [(''/p1'', Map [])]"
    using td by blast
  have r3: "runCommand sample_env sample_store ?d
      = cmd_Output sample_env ''echo {}'' (Some sample_record_text)"
    using td g2 g3 unfolding g5 by blast
  from h1 h2 h3 u1 u2 h4 h5 r1 g2 g3 r2 r3 g4 show ?thesis by blast
qed

subsection \<open>The default interval\<close>

text \<open>
  C9. For every config whose \<open>Interval\<close> is the empty string, the record a run of
  that config persists carries the \<open>Interval\<close> \<^verbatim>\<open>1m\<close>.
\<close>

theorem persisted_Interval_defaults_to_1m:
  assumes "Interval config = []" and "Path config \<noteq> []"
    and "fst (snd (Run env a config)) = None"
  shows "\<exists>record recordInJson.
      Db (snd (snd (Run env a config))) (pathWithPrefix config) = Some recordInJson
    \<and> json_Marshal env (Map record) = Inr recordInJson
    \<and> map_of record ''Interval'' = Some (String ''1m'')"
proof -
  from Run_no_error [OF assms(3)] obtain out where
    save: "saveRun env a config out = (None, snd (snd (Run env a config)))"
    by blast
  from saveRun_persisted [OF assms(2) save] obtain host runData recordInJson where
    m: "json_Marshal env (Map (saveRun_record env a config host runData)) = Inr recordInJson"
    and a': "snd (snd (Run env a config)) = a\<lparr>Db := (Db a)(pathWithPrefix config \<mapsto> recordInJson)\<rparr>"
    by blast
  have "Db (snd (snd (Run env a config))) (pathWithPrefix config) = Some recordInJson"
    by (simp add: a')
  moreover have "map_of (saveRun_record env a config host runData) ''Interval'' = Some (String ''1m'')"
    by (simp add: map_of_saveRun_record assms(1))
  ultimately show ?thesis using m by blast
qed

text \<open>C9 on the sample world: a writer without an interval that shells out.\<close>

theorem persisted_Interval_defaults_to_1m_witness:
  "Interval (sample_config ''writer'' ''/alert'' ''echo {}'' []) = []
   \<and> Path (sample_config ''writer'' ''/alert'' ''echo {}'' []) \<noteq> []
   \<and> fst (snd (Run sample_env sample_agent (sample_config ''writer'' ''/alert'' ''echo {}'' []))) = None
   \<and> (\<exists>record recordInJson.
        Db (snd (snd (Run sample_env sample_agent
            (sample_config ''writer'' ''/alert'' ''echo {}'' [])))) ''/w/alert'' = Some recordInJson
      \<and> json_Marshal sample_env (Map record) = Inr recordInJson
      \<and> map_of record ''Interval'' = Some (String ''1m''))"
proof -
  let ?c = "sample_config ''writer'' ''/alert'' ''echo {}'' []"
  have h1: "Interval ?c = []" by (simp add: sample_config_def)
  have h2: "Path ?c \<noteq> []" by (simp add: sample_config_def)
  have h3: "fst (snd (Run sample_env sample_agent ?c)) = None"
    by (simp add: run_defs sample_defs)
  have k: "pathWithPrefix ?c = ''/w/alert''"
    by (simp add: pathWithPrefix_kind sample_config_def)
  show ?thesis
    using persisted_Interval_defaults_to_1m [OF h1 h2 h3] h1 h2 h3
    by (simp add: k)
qed

subsection \<open>Output that does not parse\<close>

text \<open>
  C7. When the output of a run is not parsable as a JSON object during persistence
  (the dispatch returned it without an error, the path is not empty, the host lookup
  succeeded and \<^verbatim>\<open>json.Unmarshal\<close> into the record's data fails), \<open>Run\<close>
  returns that error together with the raw output; nothing is stored.
\<close>

theorem Run_unparsable_output_returns_output_and_error:
  assumes "Run_dispatch env a config = (out, None)"
    and "Path config \<noteq> []"
    and "NewHostByHostname env = Inr host"
    and "json_Unmarshal_map env out = Inl err"
  shows "Run env a config = (out, Some err, a)"
  using assms by (simp add: Run_def saveRun_def hostData_def Let_def)

text \<open>C7 on the sample world: \<^verbatim>\<open>echo hi\<close> prints text that is not JSON.\<close>

theorem Run_unparsable_output_returns_output_and_error_witness:
  "Run_dispatch sample_env sample_agent (sample_config ''reader'' ''/x'' ''echo hi'' []) = (''hi'', None)
   \<and> Path (sample_config ''reader'' ''/x'' ''echo hi'' []) \<noteq> []
   \<and> NewHostByHostname sample_env = Inr sample_host
   \<and> json_Unmarshal_map sample_env ''hi'' = Inl (Error ''invalid character'')
   \<and> Run sample_env sample_agent (sample_config ''reader'' ''/x'' ''echo hi'' [])
       = (''hi'', Some (Error ''invalid character''), sample_agent)"
proof -
  let ?c = "sample_config ''reader'' ''/x'' ''echo hi'' []"
  have h1: "Run_dispatch sample_env sample_agent ?c = (''hi'', None)"
    by (simp add: run_defs sample_defs)
  have h2: "Path ?c \<noteq> []" by (simp add: sample_config_def)
  have h3: "NewHostByHostname sample_env = Inr sample_host" by (simp add: sample_env_def)
  have h4: "json_Unmarshal_map sample_env ''hi'' = Inl (Error ''invalid character'')"
    by (simp add: sample_defs)
  show ?thesis
    using Run_unparsable_output_returns_output_and_error [OF h1 h2 h3 h4] h1 h2 h3 h4
    by simp
qed

subsection \<open>The scheduling loops\<close>

text \<open>
  \<^verbatim>\<open>RunForever\<close> returns exactly when a sender is waiting on its quit channel at
  some poll.
\<close>

lemma RunForever_Some_quit:
  assumes "RunForever envs config quit i a = Some r"
  shows "\<exists>j\<ge>i. quit j"
proof (rule RunForever.raw_induct [where P = "\<lambda>envs config quit i a r. \<exists>j\<ge>i. quit j", OF _ assms])
  fix f :: "(nat \<Rightarrow> 'a env) \<Rightarrow> Config \<Rightarrow> (nat \<Rightarrow> bool) \<Rightarrow> nat \<Rightarrow> Agent \<Rightarrow> Agent option"
  fix envs config quit i a r
  assume IH: "\<And>envs config quit i a r. f envs config quit i a = Some r \<Longrightarrow> \<exists>j\<ge>i. quit j"
  assume step: "(if quit i then Some a
      else f envs config quit (Suc i) (snd (snd (Run (envs i) a config)))) = Some r"
  show "\<exists>j\<ge>i. quit j"
  proof (cases "quit i")
    case True
    then show ?thesis by blast
  next
    case False
    with step have "f envs config quit (Suc i) (snd (snd (Run (envs i) a config))) = Some r"
      by simp
    from IH [OF this] obtain j where "Suc i \<le> j" "quit j" by blast
    then show ?thesis using Suc_leD by blast
  qed
qed

lemma RunForever_returns:
  assumes "quit (i + k)"
  shows "\<exists>r. RunForever envs config quit i a = Some r"
  using assms
proof (induction k arbitrary: i a)
  case 0
  then show ?case by (subst RunForever.simps) simp
next
  case (Suc k)
  then have "quit (Suc i + k)" by simp
  from Suc.IH [OF this] show ?case
    by (subst RunForever.simps) simp
qed

lemma RunForever_never_quit: "RunForever envs config (\<lambda>i. False) i a = None"
proof (cases "RunForever envs config (\<lambda>i. False) i a")
  case None
  then show ?thesis .
next
  case (Some r)
  then show ?thesis using RunForever_Some_quit by fastforce
qed

text \<open>
  C8 fails on the code. \<^verbatim>\<open>RunAllForever\<close> calls \<^verbatim>\<open>RunForever\<close> for the first
  entry of a configuration set in its own thread of control, and that call does not
  return: whatever the set, with a first reader (or, without readers, a first writer)
  the two \<^verbatim>\<open>range\<close> loops never get to a second entry, and the dispatcher never
  gets back to its \<^verbatim>\<open>select\<close> to take the next configuration set.
\<close>

theorem RunAllForever_first_loop_never_returns:
  "RunAllForever_loops envs (config # rest) a = None
   \<and> RunAllForever_start envs \<lparr>Readers = config # rest, Writers = writers\<rparr> a = None
   \<and> RunAllForever_start envs \<lparr>Readers = [], Writers = config # rest\<rparr> a = None"
  by (simp add: RunAllForever_start_def RunForever_never_quit)

subsection \<open>Idempotence of the prefixing helpers\<close>

text \<open>
  C10. For every string \<open>s\<close> that begins with \<^verbatim>\<open>/\<close>, prefixing is idempotent:
  \<open>pathWithReaderPrefix (pathWithReaderPrefix s) = pathWithReaderPrefix s\<close>, and
  likewise for \<open>pathWithWriterPrefix\<close>; a string that already starts with
  \<^verbatim>\<open>/r/\<close> (or \<^verbatim>\<open>/w/\<close>) is returned as it is. A string that begins with
  \<^verbatim>\<open>/\<close> is \<open>CHR ''/'' # t\<close>.
\<close>

theorem pathWithPrefix_idempotent:
  "pathWithReaderPrefix (StringInput (pathWithReaderPrefix (StringInput (CHR ''/'' # t))))
     = pathWithReaderPrefix (StringInput (CHR ''/'' # t))
   \<and> pathWithWriterPrefix (StringInput (pathWithWriterPrefix (StringInput (CHR ''/'' # t))))
     = pathWithWriterPrefix (StringInput (CHR ''/'' # t))
   \<and> pathWithReaderPrefix (StringInput (''/r/'' @ u)) = ''/r/'' @ u
   \<and> pathWithWriterPrefix (StringInput (''/w/'' @ u)) = ''/w/'' @ u"
  by (simp add: pathWithReaderPrefix_def pathWithWriterPrefix_def
      pathWithReaderOrWriterPrefix_def)

end
